theory Spec2Isabelle
  imports Main "HOL-Library.Word"
begin

section \<open>Alexandria CMDB: CI type schemas, attribute lookup and password hashes\<close>

subsection \<open>Data model\<close>

text \<open>
  Go strings are byte sequences; a \<^typ>\<open>string\<close> is a list of 8-bit characters.
  A \<^verbatim>\<open>float64\<close> field is kept as its IEEE-754 bit pattern: no arithmetic on it is
  needed by schema validation.
\<close>

type_synonym float64 = "64 word"

text \<open>
  \<^verbatim>\<open>type CITypeAttribute struct\<close>, with the fields in the order of the source. The struct
  is recursive through \<^verbatim>\<open>Children CITypeAttributeList\<close>, so it is a datatype with
  selectors rather than a record.
\<close>

datatype CITypeAttribute = CITypeAttribute
  (Name: string)
  (ShortName: string)
  (Type: string)
  (Description: string)
  (Children: "CITypeAttribute list")
  (Required: bool)
  (IsArray: bool)
  (MinCount: int)
  (MaxCount: int)
  (Singular: string)
  (MinLength: int)
  (MaxLength: int)
  (Filters: "string list")
  (Units: string)
  (MinValue: float64)
  (MaxValue: float64)

type_synonym CITypeAttributeList = "CITypeAttribute list"

text \<open>The two field assignments the validation performs on an attribute.\<close>

fun set_ShortName :: "string \<Rightarrow> CITypeAttribute \<Rightarrow> CITypeAttribute" where
  "set_ShortName s (CITypeAttribute n sn t d ch rq ia mic mac sg mil mal fs u miv mav) =
     CITypeAttribute n s t d ch rq ia mic mac sg mil mal fs u miv mav"

fun set_Children :: "CITypeAttribute list \<Rightarrow> CITypeAttribute \<Rightarrow> CITypeAttribute" where
  "set_Children cs (CITypeAttribute n sn t d ch rq ia mic mac sg mil mal fs u miv mav) =
     CITypeAttribute n sn t d cs rq ia mic mac sg mil mal fs u miv mav"

text \<open>
  \<^verbatim>\<open>type CIType struct\<close>. The embedded \<^verbatim>\<open>model\<close> (identifier and time stamps) is
  declared in a file that is not among the sources and is not touched by validation; it
  is the extension part of the record. The field names carry the prefix \<open>ci\<close> because
  the attribute's selectors already own the plain names.
\<close>

record CIType =
  ciName :: string
  ciShortName :: string
  ciDescription :: string
  ciAttributes :: CITypeAttributeList

subsection \<open>Schema validation\<close>

text \<open>
  \<^verbatim>\<open>GetShortName\<close>, \<^verbatim>\<open>IsValidShortName\<close> and \<^verbatim>\<open>GetAttributeFormat\<close> are called by the
  validation but declared elsewhere. The validation takes them as the parameters
  \<open>gsn\<close>, \<open>ivs\<close> and \<open>gaf\<close>; \<open>gaf t = None\<close> is the \<^verbatim>\<open>nil\<close> of an unregistered format.

  \<^verbatim>\<open>validateAttributes\<close> walks the slice by index and writes through a pointer into it, so
  the caller sees the short names written before an error is returned. The model returns
  the slice as it is left behind together with the error (\<open>None\<close> is Go's \<^verbatim>\<open>nil\<close>).
\<close>

function (sequential) validateAttributes ::
  "(string \<Rightarrow> string) \<Rightarrow> (string \<Rightarrow> bool) \<Rightarrow> (string \<Rightarrow> 'f option) \<Rightarrow>
   CITypeAttributeList \<Rightarrow> string \<Rightarrow> CITypeAttributeList \<times> string option" where
  "validateAttributes gsn ivs gaf [] path = ([], None)"
| "validateAttributes gsn ivs gaf (att0 # rest) path =
     (if Name att0 = [] then (att0 # rest, Some ''No attribute name specified'')
      else
        let att = set_ShortName (gsn (Name att0)) att0 in
        if \<not> ivs (ShortName att) then
          (att # rest,
           Some (''Invalid characters in CI Attribute '' @ [CHR 39] @ path @ ShortName att @ [CHR 39]))
        else if Type att = [] then
          (att # rest,
           Some (''No type specified for CI Attribute '' @ [CHR 39] @ path @ ShortName att @ [CHR 39]))
        else if gaf (Type att) = None then
          (att # rest,
           Some (''Unsupported attribute format '' @ [CHR 39] @ Type att @ [CHR 39]
                 @ '' for CI Attribute '' @ [CHR 39] @ path @ ShortName att @ [CHR 39]))
        else if Type att = ''group'' then
          (case validateAttributes gsn ivs gaf (Children att) (ShortName att @ ''.'') of
             (children, Some err) \<Rightarrow> (set_Children children att # rest, Some err)
           | (children, None) \<Rightarrow>
               (case validateAttributes gsn ivs gaf rest path of
                  (rest', r) \<Rightarrow> (set_Children children att # rest', r)))
        else if length (Children att) > 0 then
          (att # rest,
           Some (''CI Attribute '' @ [CHR 39] @ path @ ShortName att @ [CHR 39]
                 @ '' has children but is not a group attribute''))
        else
          (case validateAttributes gsn ivs gaf rest path of
             (rest', r) \<Rightarrow> (att # rest', r)))"
  by pat_completeness auto

lemma size_Children: "size_list size (Children a) < size a"
  by (cases a) simp

lemma size_Children_Suc: "size_list size (Children a) < Suc (size a + n)"
  using size_Children [of a] by simp

lemma Children_set_ShortName [simp]: "Children (set_ShortName s a) = Children a"
  by (cases a) simp

termination validateAttributes
  by (relation "measure (\<lambda>(gsn, ivs, gaf, atts, path). size_list size atts)")
     (simp_all add: size_Children_Suc)

text \<open>
  \<^verbatim>\<open>CIType.Validate\<close>. The receiver is a pointer, so the derived short name stays in the
  schema also when a later check fails.
\<close>

definition Validate ::
  "(string \<Rightarrow> string) \<Rightarrow> (string \<Rightarrow> bool) \<Rightarrow> (string \<Rightarrow> 'f option) \<Rightarrow>
   'a CIType_scheme \<Rightarrow> 'a CIType_scheme \<times> string option" where
  "Validate gsn ivs gaf c =
     (if ciName c = [] then (c, Some ''No CI Type name specified'')
      else
        let c1 = (if ciShortName c = [] then c\<lparr>ciShortName := gsn (ciName c)\<rparr> else c) in
        if \<not> ivs (ciShortName c1) then (c1, Some ''Invalid characters in CI Type name'')
        else
          (case validateAttributes gsn ivs gaf (ciAttributes c1) [] of
             (atts, Some err) \<Rightarrow> (c1\<lparr>ciAttributes := atts\<rparr>, Some err)
           | (atts, None) \<Rightarrow> (c1\<lparr>ciAttributes := atts\<rparr>, None)))"

subsection \<open>Attribute lookup\<close>

text \<open>
  \<^verbatim>\<open>strings.ToLower\<close> of the Go library. A string without a byte from \<open>0x80\<close> on is
  lower-cased byte by byte: a byte from \<open>A\<close> to \<open>Z\<close> is moved by \<open>'a' - 'A'\<close>, any
  other byte stays. Any other string goes through \<^verbatim>\<open>Map(unicode.ToLower, s)\<close>, which
  decodes UTF-8 and consults the Unicode case tables; that branch is the parameter
  \<open>mapLower\<close>.
\<close>

definition toLowerByte :: "char \<Rightarrow> char" where
  "toLowerByte c =
     (if 65 \<le> (of_char c :: nat) \<and> (of_char c :: nat) \<le> 90
      then char_of ((of_char c :: nat) + 32) else c)"







subsection \<open>Name normalisation and format registry\<close>

text \<open>
  The identifier alphabet of the spec: the ASCII letters, the digits and a small set of
  separators that is fixed outside the sources and is the parameter \<open>seps\<close> here.
\<close>

definition isLetter :: "char \<Rightarrow> bool" where
  "isLetter c \<longleftrightarrow>
     (65 \<le> (of_char c :: nat) \<and> (of_char c :: nat) \<le> 90) \<or>
     (97 \<le> (of_char c :: nat) \<and> (of_char c :: nat) \<le> 122)"

definition isDigit :: "char \<Rightarrow> bool" where
  "isDigit c \<longleftrightarrow> 48 \<le> (of_char c :: nat) \<and> (of_char c :: nat) \<le> 57"

definition inAlphabet :: "string \<Rightarrow> char \<Rightarrow> bool" where
  "inAlphabet seps c \<longleftrightarrow> isLetter c \<or> isDigit c \<or> c \<in> set seps"

text \<open>
  Modelled from the spec: \<^verbatim>\<open>GetShortName\<close> (the short name derivation of the name
  normaliser) is not among the sources. The spec has it lower-case its input and strip
  the characters outside the identifier alphabet; the letters of that alphabet are the
  ASCII letters, so the lower-casing is that of the bytes \<open>A\<close> to \<open>Z\<close>.
\<close>

definition GetShortName :: "string \<Rightarrow> string \<Rightarrow> string" where
  "GetShortName seps name = filter (inAlphabet seps) (map toLowerByte name)"

text \<open>
  Modelled from the spec: \<^verbatim>\<open>IsValidShortName\<close> (the validity check of the name
  normaliser) is not among the sources. The spec has it test the same alphabet again,
  and nothing else.
\<close>

definition IsValidShortName :: "string \<Rightarrow> string \<Rightarrow> bool" where
  "IsValidShortName seps s \<longleftrightarrow> list_all (inAlphabet seps) s"

datatype Format = StringFormat | NumberFormat | BooleanFormat | TimestampFormat | GroupFormat

text \<open>
  Modelled from the spec: the format registry behind \<^verbatim>\<open>GetAttributeFormat\<close> is not among
  the sources. It holds the five built-in formats the spec lists and the tests look up;
  any other name is absent.
\<close>

definition GetAttributeFormat :: "string \<Rightarrow> Format option" where
  "GetAttributeFormat name =
     map_of [(''string'', StringFormat), (''number'', NumberFormat),
             (''boolean'', BooleanFormat), (''timestamp'', TimestampFormat),
             (''group'', GroupFormat)] name"

subsection \<open>Concrete schemas\<close>

text \<open>
  The composite literal \<^verbatim>\<open>CITypeAttribute{Name: n, ShortName: sn, Type: t, Children: cs}\<close>:
  the fields not named have Go's zero values.
\<close>

definition attribute :: "string \<Rightarrow> string \<Rightarrow> string \<Rightarrow> CITypeAttributeList \<Rightarrow> CITypeAttribute" where
  "attribute n sn t cs = CITypeAttribute n sn t [] cs False False 0 0 [] 0 0 [] [] 0 0"

text \<open>
  The composite literal \<^verbatim>\<open>CIType{Name: n, ShortName: sn, Attributes: atts}\<close>.
\<close>

definition citype :: "string \<Rightarrow> string \<Rightarrow> CITypeAttributeList \<Rightarrow> CIType" where
  "citype n sn atts = \<lparr>ciName = n, ciShortName = sn, ciDescription = [], ciAttributes = atts\<rparr>"

subsection \<open>The test of the boolean format\<close>

text \<open>
  The values the tests hand to a format validator through \<^verbatim>\<open>*interface{}\<close>: a native
  boolean, a string, an \<^verbatim>\<open>int\<close> and a \<^verbatim>\<open>float64\<close>.
\<close>

datatype Value = VBool bool | VString string | VInt int | VFloat64 float64









subsection \<open>Password hashes\<close>

type_synonym byte = "8 word"

text \<open>
  \<^verbatim>\<open>base64.StdEncoding\<close> of the Go library. \<^verbatim>\<open>EncodeToString\<close> packs three bytes into
  a 24-bit value and writes its four 6-bit digits through the alphabet; a remainder of
  one or two bytes is packed with zero bytes and padded with \<open>=\<close>.
  \<^verbatim>\<open>DecodeString\<close> skips carriage returns and line feeds, reads groups of four
  characters through the inverse of the alphabet, accepts padding in the last group
  only, and fails (\<open>None\<close>, Go's \<^verbatim>\<open>CorruptInputError\<close>) on anything else.
\<close>

definition encodeStd :: string where
  "encodeStd = ''ABCDEFGHIJKLMNOPQRSTUVWXYZabcdefghijklmnopqrstuvwxyz0123456789+/''"

definition encode :: "nat \<Rightarrow> char" where
  "encode i = encodeStd ! i"

fun indexOf :: "char \<Rightarrow> string \<Rightarrow> nat option" where
  "indexOf c [] = None"
| "indexOf c (x # xs) = (if x = c then Some 0 else map_option Suc (indexOf c xs))"

definition decodeMap :: "char \<Rightarrow> nat option" where
  "decodeMap c = indexOf c encodeStd"

text \<open>
  The shifts of the codec, on natural numbers (the values stay below \<open>2 ^ 24\<close>):
  \<^verbatim>\<open>a<<16 | b<<8 | c\<close>, \<^verbatim>\<open>val>>sh & 0x3F\<close>, \<^verbatim>\<open>i<<18 | j<<12 | k<<6 | l\<close> and
  \<^verbatim>\<open>byte(val>>sh)\<close>.
\<close>

definition quantum :: "nat \<Rightarrow> nat \<Rightarrow> nat \<Rightarrow> nat" where
  "quantum a b c = a * 65536 + b * 256 + c"

definition sextet :: "nat \<Rightarrow> nat \<Rightarrow> nat" where
  "sextet val sh = val div 2 ^ sh mod 64"

definition sextets :: "nat \<Rightarrow> nat \<Rightarrow> nat \<Rightarrow> nat \<Rightarrow> nat" where
  "sextets i j k l = i * 262144 + j * 4096 + k * 64 + l"

definition octet :: "nat \<Rightarrow> nat \<Rightarrow> byte" where
  "octet val sh = of_nat (val div 2 ^ sh)"

fun EncodeToString :: "byte list \<Rightarrow> string" where
  "EncodeToString [] = []"
| "EncodeToString [a] =
     (let val = quantum (unat a) 0 0 in
      [encode (sextet val 18), encode (sextet val 12), CHR ''='', CHR ''=''])"
| "EncodeToString [a, b] =
     (let val = quantum (unat a) (unat b) 0 in
      [encode (sextet val 18), encode (sextet val 12), encode (sextet val 6), CHR ''=''])"
| "EncodeToString (a # b # c # rest) =
     (let val = quantum (unat a) (unat b) (unat c) in
      encode (sextet val 18) # encode (sextet val 12) # encode (sextet val 6) #
      encode (sextet val 0) # EncodeToString rest)"

fun decodeQuanta :: "string \<Rightarrow> byte list option" where
  "decodeQuanta [] = Some []"
| "decodeQuanta (c1 # c2 # c3 # c4 # rest) =
     (if rest = [] \<and> c3 = CHR ''='' \<and> c4 = CHR ''='' then
        (case (decodeMap c1, decodeMap c2) of
           (Some i, Some j) \<Rightarrow>
             (let val = sextets i j 0 0 in Some [octet val 16])
         | _ \<Rightarrow> None)
      else if rest = [] \<and> c4 = CHR ''='' then
        (case (decodeMap c1, decodeMap c2, decodeMap c3) of
           (Some i, Some j, Some k) \<Rightarrow>
             (let val = sextets i j k 0 in Some [octet val 16, octet val 8])
         | _ \<Rightarrow> None)
      else
        (case (decodeMap c1, decodeMap c2, decodeMap c3, decodeMap c4) of
           (Some i, Some j, Some k, Some l) \<Rightarrow>
             (let val = sextets i j k l in
              map_option (\<lambda>bs. octet val 16 # octet val 8 # octet val 0 # bs)
                (decodeQuanta rest))
         | _ \<Rightarrow> None))"
| "decodeQuanta _ = None"

definition DecodeString :: "string \<Rightarrow> byte list option" where
  "DecodeString s = decodeQuanta (filter (\<lambda>c. c \<noteq> CHR 13 \<and> c \<noteq> CHR 10) s)"

text \<open>
  \<^verbatim>\<open>sha256.Sum256\<close> of the Go library is the parameter \<open>Sum256\<close>. Its result, an array
  \<^verbatim>\<open>[32]byte\<close>, is kept as the 256-bit word of its bytes, and \<^verbatim>\<open>sha[:]\<close> lists the 32
  bytes, the most significant first.
\<close>

type_synonym array32 = "256 word"

definition slice32 :: "array32 \<Rightarrow> byte list" where
  "slice32 d = map (\<lambda>i. ucast (drop_bit (8 * (31 - i)) d)) [0..<32]"

text \<open>The conversion \<^verbatim>\<open>[]byte(password)\<close>.\<close>

definition bytes :: "string \<Rightarrow> byte list" where
  "bytes s = map (\<lambda>c. of_nat (of_char c)) s"

text \<open>
  \<^verbatim>\<open>HashPasswordWithSalt\<close>. The two \<^verbatim>\<open>append\<close> calls build new contents from the salt
  and the password; where the salt's slice has spare capacity the first one writes behind
  the salt's length only, so the bytes of the salt, and with them the result, are those of
  a fresh concatenation.
\<close>

definition HashPasswordWithSalt :: "(byte list \<Rightarrow> array32) \<Rightarrow> string \<Rightarrow> byte list \<Rightarrow> string" where
  "HashPasswordWithSalt Sum256 password salt =
     (let salted = salt @ bytes password;
          sha = Sum256 salted;
          hash = slice32 sha @ salt
      in EncodeToString hash)"

text \<open>
  \<^verbatim>\<open>CheckPassword\<close>. It panics when the hash is not base64 (\<^verbatim>\<open>log.Panic\<close>) and when
  the decoded hash has less than 32 bytes (the slice expression \<^verbatim>\<open>b[32:]\<close>).
\<close>

datatype panic = CorruptInput | SliceBounds

definition CheckPassword :: "(byte list \<Rightarrow> array32) \<Rightarrow> string \<Rightarrow> string \<Rightarrow> panic + bool" where
  "CheckPassword Sum256 hash password =
     (if password = [] \<or> hash = [] then Inr False
      else
        (case DecodeString hash of
           None \<Rightarrow> Inl CorruptInput
         | Some b \<Rightarrow>
             if length b < 32 then Inl SliceBounds
             else
               let checkHash = HashPasswordWithSalt Sum256 password (drop 32 b)
               in Inr (hash = checkHash)))"

subsection \<open>Notions used to state the properties\<close>

text \<open>
  An attribute definition passes schema validation on its own: the five checks of the
  loop body, the last one through its children.
\<close>

fun attOK ::
  "(string \<Rightarrow> string) \<Rightarrow> (string \<Rightarrow> bool) \<Rightarrow> (string \<Rightarrow> 'f option) \<Rightarrow> CITypeAttribute \<Rightarrow> bool" where
  "attOK gsn ivs gaf (CITypeAttribute n sn t d ch rq ia mic mac sg mil mal fs u miv mav) \<longleftrightarrow>
     n \<noteq> [] \<and> ivs (gsn n) \<and> t \<noteq> [] \<and> gaf t \<noteq> None \<and>
     (if t = ''group'' then list_all (attOK gsn ivs gaf) ch else ch = [])"

text \<open>The tree with every short name replaced by the one derived from the name.\<close>

fun normalizeShortNames :: "(string \<Rightarrow> string) \<Rightarrow> CITypeAttribute \<Rightarrow> CITypeAttribute" where
  "normalizeShortNames gsn (CITypeAttribute n sn t d ch rq ia mic mac sg mil mal fs u miv mav) =
     CITypeAttribute n (gsn n) t d (map (normalizeShortNames gsn) ch)
       rq ia mic mac sg mil mal fs u miv mav"

text \<open>All attribute definitions of a tree: the node and, recursively, its children.\<close>

fun attributesOf :: "CITypeAttribute \<Rightarrow> CITypeAttribute list" where
  "attributesOf (CITypeAttribute n sn t d ch rq ia mic mac sg mil mal fs u miv mav) =
     CITypeAttribute n sn t d ch rq ia mic mac sg mil mal fs u miv mav
       # concat (map attributesOf ch)"

text \<open>
  A position in a forest of attribute definitions: the index of a root, then the index
  of a child, and so on; \<open>attAt\<close> is the attribute at a position.
\<close>

fun attAt :: "CITypeAttributeList \<Rightarrow> nat list \<Rightarrow> CITypeAttribute option" where
  "attAt atts [] = None"
| "attAt atts [i] = (if i < length atts then Some (atts ! i) else None)"
| "attAt atts (i # j # js) =
     (if i < length atts then attAt (Children (atts ! i)) (j # js) else None)"

text \<open>
  The validation of a sequence visits the attribute at a position: the loop reaches a
  sibling when the run over the siblings before it returns no error, and it reaches a
  child when it has reached the parent, the parent has passed its own checks and is a
  group, and the run over the parent's children reaches the child.
\<close>

fun visited ::
  "(string \<Rightarrow> string) \<Rightarrow> (string \<Rightarrow> bool) \<Rightarrow> (string \<Rightarrow> 'f option) \<Rightarrow>
   CITypeAttributeList \<Rightarrow> nat list \<Rightarrow> bool" where
  "visited gsn ivs gaf atts [] \<longleftrightarrow> False"
| "visited gsn ivs gaf atts [i] \<longleftrightarrow>
     i < length atts \<and> snd (validateAttributes gsn ivs gaf (take i atts) []) = None"
| "visited gsn ivs gaf atts (i # j # js) \<longleftrightarrow>
     i < length atts \<and> snd (validateAttributes gsn ivs gaf (take i atts) []) = None \<and>
     Name (atts ! i) \<noteq> [] \<and> ivs (gsn (Name (atts ! i))) \<and> Type (atts ! i) = ''group'' \<and>
     gaf (Type (atts ! i)) \<noteq> None \<and> visited gsn ivs gaf (Children (atts ! i)) (j # js)"

section \<open>Properties\<close>

subsection \<open>Auxiliary facts about the validation loop\<close>

lemma sel_set_ShortName [simp]:
  "Name (set_ShortName s a) = Name a"
  "ShortName (set_ShortName s a) = s"
  "Type (set_ShortName s a) = Type a"
  by (cases a; simp)+

lemma sel_set_Children [simp]:
  "Name (set_Children cs a) = Name a"
  "ShortName (set_Children cs a) = ShortName a"
  "Type (set_Children cs a) = Type a"
  "Children (set_Children cs a) = cs"
  by (cases a; simp)+

lemma set_Children_same: "Children a = [] \<Longrightarrow> set_Children [] a = a"
  by (cases a) simp

lemma attOK_sel:
  "attOK gsn ivs gaf a \<longleftrightarrow>
     Name a \<noteq> [] \<and> ivs (gsn (Name a)) \<and> Type a \<noteq> [] \<and> gaf (Type a) \<noteq> None \<and>
     (if Type a = ''group'' then list_all (attOK gsn ivs gaf) (Children a) else Children a = [])"
  by (cases a) simp

lemma normalizeShortNames_sel:
  "normalizeShortNames gsn a =
     set_Children (map (normalizeShortNames gsn) (Children a)) (set_ShortName (gsn (Name a)) a)"
  by (cases a) simp

text \<open>Validation returns no error exactly when every sibling passes on its own.\<close>

lemma success_iff:
  "snd (validateAttributes gsn ivs gaf atts p) = None \<longleftrightarrow> list_all (attOK gsn ivs gaf) atts"
proof (induction gsn ivs gaf atts p rule: validateAttributes.induct)
  case (1 gsn ivs gaf path)
  show ?case by simp
next
  case (2 gsn ivs gaf att0 rest path)
  then show ?case
    by (auto simp: Let_def attOK_sel [of _ _ _ att0] split: prod.splits option.splits)
qed

text \<open>A successful run leaves the slice with every short name derived anew.\<close>

lemma success_result:
  "snd (validateAttributes gsn ivs gaf atts p) = None \<Longrightarrow>
   fst (validateAttributes gsn ivs gaf atts p) = map (normalizeShortNames gsn) atts"
proof (induction gsn ivs gaf atts p rule: validateAttributes.induct)
  case (1 gsn ivs gaf path)
  show ?case by simp
next
  case (2 gsn ivs gaf att0 rest path)
  then show ?case
    by (auto simp: Let_def normalizeShortNames_sel [of _ att0] set_Children_same
             split: prod.splits option.splits if_splits)
qed

lemma attributesOf_normalizeShortNames:
  "b \<in> set (attributesOf (normalizeShortNames gsn a)) \<Longrightarrow> ShortName b = gsn (Name b)"
  by (induction gsn a arbitrary: b rule: normalizeShortNames.induct) auto

text \<open>
  The loop over a concatenation: an error in the first part ends the run and leaves the
  second part as it was; otherwise the run goes on with the second part.
\<close>

lemma validateAttributes_append:
  "validateAttributes gsn ivs gaf (xs @ ys) path =
     (case validateAttributes gsn ivs gaf xs path of
        (xs', Some e) \<Rightarrow> (xs' @ ys, Some e)
      | (xs', None) \<Rightarrow>
          (case validateAttributes gsn ivs gaf ys path of (ys', r) \<Rightarrow> (xs' @ ys', r)))"
proof (induction xs)
  case Nil
  show ?case by (simp split: prod.splits option.splits)
next
  case (Cons a xs)
  then show ?case
    by (simp add: Let_def split: prod.splits option.splits)
qed

lemma validateAttributes_length:
  "length (fst (validateAttributes gsn ivs gaf atts p)) = length atts"
proof (induction gsn ivs gaf atts p rule: validateAttributes.induct)
  case (1 gsn ivs gaf path)
  show ?case by simp
next
  case (2 gsn ivs gaf att0 rest path)
  then show ?case
    by (auto simp: Let_def split: prod.splits option.splits)
qed

lemma validateAttributes_append_error:
  "snd (validateAttributes gsn ivs gaf xs path) = Some e \<Longrightarrow>
   validateAttributes gsn ivs gaf (xs @ ys) path =
     (fst (validateAttributes gsn ivs gaf xs path) @ ys, Some e)"
  by (cases "validateAttributes gsn ivs gaf xs path") (simp add: validateAttributes_append)

lemma validateAttributes_append_ok:
  "snd (validateAttributes gsn ivs gaf xs path) = None \<Longrightarrow>
   validateAttributes gsn ivs gaf (xs @ ys) path =
     (fst (validateAttributes gsn ivs gaf xs path) @ fst (validateAttributes gsn ivs gaf ys path),
      snd (validateAttributes gsn ivs gaf ys path))"
  by (cases "validateAttributes gsn ivs gaf xs path"; cases "validateAttributes gsn ivs gaf ys path")
     (simp add: validateAttributes_append)

lemmas eval_defs = attribute_def citype_def Validate_def GetShortName_def IsValidShortName_def
  GetAttributeFormat_def toLowerByte_def inAlphabet_def isLetter_def isDigit_def
  Let_def char_of_def bit_Suc_0_iff

subsection \<open>Error paths of nested attributes\<close>

text \<open>
  Claim C1. An error at an attribute nested below groups should name it by the short
  names of all its ancestors, joined by dots, before its own short name. The recursive
  call builds the prefix of the children from the group's short name alone and drops the
  prefix the group itself was reached with: in the schema with the group \<open>A\<close> holding
  the group \<open>B\<close> holding the attribute \<open>C\<close> that has no type, the error names
  \<open>b.c\<close> and not \<open>a.b.c\<close>.
\<close>

theorem nested_error_path_lacks_ancestors:
  "snd (Validate (GetShortName ''-_'') (IsValidShortName ''-_'') GetAttributeFormat
         (citype ''Server'' []
            [attribute ''A'' [] ''group''
               [attribute ''B'' [] ''group'' [attribute ''C'' [] [] []]]]))
   = Some (''No type specified for CI Attribute '' @ [CHR 39] @ ''b.c'' @ [CHR 39]) \<and>
   snd (Validate (GetShortName ''-_'') (IsValidShortName ''-_'') GetAttributeFormat
         (citype ''Server'' []
            [attribute ''A'' [] ''group''
               [attribute ''B'' [] ''group'' [attribute ''C'' [] [] []]]]))
   \<noteq> Some (''No type specified for CI Attribute '' @ [CHR 39] @ ''a.b.c'' @ [CHR 39])"
  by (simp add: eval_defs)

subsection \<open>Groups and children\<close>

text \<open>
  Claim C3. Take an attribute definition whose name, derived short name and type pass
  their checks (the type is not empty and resolves in the registry) and whose children
  are not empty. If it is a group, validating it succeeds exactly when validating each
  child on its own succeeds (under whatever path prefix \<open>p\<close>); if it is not a group,
  validating it fails with the error that it has children but is not a group attribute.
\<close>

theorem group_children_decide:
  assumes "Name a \<noteq> []" and "ivs (gsn (Name a))" and "Type a \<noteq> []" and "gaf (Type a) \<noteq> None"
    and "Children a \<noteq> []"
  shows "(Type a = ''group'' \<longrightarrow>
            (snd (validateAttributes gsn ivs gaf [a] path) = None \<longleftrightarrow>
             (\<forall>c \<in> set (Children a). snd (validateAttributes gsn ivs gaf [c] p) = None))) \<and>
         (Type a \<noteq> ''group'' \<longrightarrow>
            snd (validateAttributes gsn ivs gaf [a] path) =
              Some (''CI Attribute '' @ [CHR 39] @ path @ gsn (Name a) @ [CHR 39]
                    @ '' has children but is not a group attribute''))"
proof (intro conjI impI)
  assume g: "Type a = ''group''"
  have "snd (validateAttributes gsn ivs gaf [a] path) = None \<longleftrightarrow>
        list_all (attOK gsn ivs gaf) (Children a)"
    using assms g by (simp only: success_iff) (simp add: attOK_sel [of _ _ _ a])
  also have "\<dots> \<longleftrightarrow> (\<forall>c \<in> set (Children a). snd (validateAttributes gsn ivs gaf [c] p) = None)"
    by (simp only: success_iff) (simp add: list_all_iff)
  finally show "snd (validateAttributes gsn ivs gaf [a] path) = None \<longleftrightarrow>
        (\<forall>c \<in> set (Children a). snd (validateAttributes gsn ivs gaf [c] p) = None)" .
next
  assume "Type a \<noteq> ''group''"
  with assms show "snd (validateAttributes gsn ivs gaf [a] path) =
              Some (''CI Attribute '' @ [CHR 39] @ path @ gsn (Name a) @ [CHR 39]
                    @ '' has children but is not a group attribute'')"
    by (simp add: Let_def)
qed

text \<open>
  The group \<open>Disks\<close> with a good child and a child without a type fails as its second
  child does; the string attribute \<open>Disks\<close> with a child is refused.
\<close>

theorem group_children_decide_witness:
  "(snd (validateAttributes (GetShortName ''-_'') (IsValidShortName ''-_'') GetAttributeFormat
          [attribute ''Disks'' [] ''group''
             [attribute ''Size'' [] ''number'' [], attribute ''Label'' [] [] []]] []) = None \<longleftrightarrow>
     (\<forall>c \<in> set [attribute ''Size'' [] ''number'' [], attribute ''Label'' [] [] []].
        snd (validateAttributes (GetShortName ''-_'') (IsValidShortName ''-_'')
               GetAttributeFormat [c] []) = None)) \<and>
   snd (validateAttributes (GetShortName ''-_'') (IsValidShortName ''-_'') GetAttributeFormat
          [attribute ''Disks'' [] ''string'' [attribute ''Size'' [] ''number'' []]] ''host.'') =
     Some (''CI Attribute '' @ [CHR 39] @ ''host.disks'' @ [CHR 39]
           @ '' has children but is not a group attribute'')"
  using group_children_decide
          [of "attribute ''Disks'' [] ''group''
                 [attribute ''Size'' [] ''number'' [], attribute ''Label'' [] [] []]"
              "IsValidShortName ''-_''" "GetShortName ''-_''" GetAttributeFormat "[]" "[]"]
        group_children_decide
          [of "attribute ''Disks'' [] ''string'' [attribute ''Size'' [] ''number'' []]"
              "IsValidShortName ''-_''" "GetShortName ''-_''" GetAttributeFormat "''host.''" "[]"]
  by (simp add: eval_defs)

subsection \<open>Short names are derived anew\<close>

lemma visited_sibling:
  assumes "snd (validateAttributes gsn ivs gaf pre path) = None"
  shows "fst (validateAttributes gsn ivs gaf (pre @ a # post) path) ! length pre =
         hd (fst (validateAttributes gsn ivs gaf (a # post) path))"
proof -
  obtain pre' where p: "validateAttributes gsn ivs gaf pre path = (pre', None)"
    using assms by (cases "validateAttributes gsn ivs gaf pre path") simp
  then have l: "length pre' = length pre"
    using validateAttributes_length [of gsn ivs gaf pre path] by simp
  obtain ys r where y: "validateAttributes gsn ivs gaf (a # post) path = (ys, r)"
    by (cases "validateAttributes gsn ivs gaf (a # post) path")
  have "length ys = Suc (length post)"
    using validateAttributes_length [of gsn ivs gaf "a # post" path] y by simp
  then have "ys \<noteq> []" by auto
  then show ?thesis
    using p y l
    by (simp add: validateAttributes_append nth_append hd_conv_nth del: validateAttributes.simps)
qed

lemma head_overwritten:
  "Name a \<noteq> [] \<Longrightarrow>
   ShortName (hd (fst (validateAttributes gsn ivs gaf (a # post) path))) = gsn (Name a)"
  by (simp add: Let_def split: prod.splits option.splits)

lemma success_any_path:
  "snd (validateAttributes gsn ivs gaf atts p) = None \<Longrightarrow>
   snd (validateAttributes gsn ivs gaf atts q) = None"
  by (simp only: success_iff)

lemma reached_sibling:
  assumes "i < length atts" and "snd (validateAttributes gsn ivs gaf (take i atts) []) = None"
  shows "fst (validateAttributes gsn ivs gaf atts path) ! i =
           hd (fst (validateAttributes gsn ivs gaf (atts ! i # drop (Suc i) atts) path))"
    and "snd (validateAttributes gsn ivs gaf atts path) =
           snd (validateAttributes gsn ivs gaf (atts ! i # drop (Suc i) atts) path)"
proof -
  have ok: "snd (validateAttributes gsn ivs gaf (take i atts) path) = None"
    using assms(2) by (rule success_any_path)
  have split: "atts = take i atts @ atts ! i # drop (Suc i) atts"
    using assms(1) by (simp add: id_take_nth_drop)
  have len: "length (take i atts) = i"
    using assms(1) by simp
  show "fst (validateAttributes gsn ivs gaf atts path) ! i =
           hd (fst (validateAttributes gsn ivs gaf (atts ! i # drop (Suc i) atts) path))"
    using visited_sibling [OF ok, of "atts ! i" "drop (Suc i) atts"] split len by simp
  show "snd (validateAttributes gsn ivs gaf atts path) =
           snd (validateAttributes gsn ivs gaf (atts ! i # drop (Suc i) atts) path)"
    using validateAttributes_append_ok [OF ok, of "atts ! i # drop (Suc i) atts"] split
    by (metis snd_conv)
qed

lemma head_name:
  "Name (hd (fst (validateAttributes gsn ivs gaf (a # post) path))) = Name a"
  by (simp add: Let_def split: prod.splits option.splits)

lemma head_group:
  assumes "Name g \<noteq> []" and "ivs (gsn (Name g))" and "Type g = ''group''" and "gaf (Type g) \<noteq> None"
  shows "Children (hd (fst (validateAttributes gsn ivs gaf (g # post) path))) =
           fst (validateAttributes gsn ivs gaf (Children g) (gsn (Name g) @ ''.''))"
    and "snd (validateAttributes gsn ivs gaf (Children g) (gsn (Name g) @ ''.'')) = Some e \<Longrightarrow>
         snd (validateAttributes gsn ivs gaf (g # post) path) = Some e"
  using assms by (auto simp: Let_def split: prod.splits option.splits)

lemma visited_overwritten:
  "visited gsn ivs gaf atts pos \<Longrightarrow> attAt atts pos = Some a \<Longrightarrow> Name a \<noteq> [] \<Longrightarrow>
   \<exists>a'. attAt (fst (validateAttributes gsn ivs gaf atts path)) pos = Some a' \<and>
        Name a' = Name a \<and> ShortName a' = gsn (Name a)"
proof (induction gsn ivs gaf atts pos arbitrary: path rule: visited.induct)
  case (1 gsn ivs gaf atts)
  then show ?case by simp
next
  case (2 gsn ivs gaf atts i)
  then have i: "i < length atts" and ok: "snd (validateAttributes gsn ivs gaf (take i atts) []) = None"
    and a: "atts ! i = a"
    by (auto split: if_splits)
  show ?case
    using reached_sibling(1) [OF i ok, of path] a "2.prems"(3) i
    by (simp add: validateAttributes_length head_name head_overwritten del: validateAttributes.simps)
next
  case (3 gsn ivs gaf atts i j js)
  then have i: "i < length atts" and ok: "snd (validateAttributes gsn ivs gaf (take i atts) []) = None"
    and g: "Name (atts ! i) \<noteq> []" "ivs (gsn (Name (atts ! i)))" "Type (atts ! i) = ''group''"
           "gaf (Type (atts ! i)) \<noteq> None"
    and v: "visited gsn ivs gaf (Children (atts ! i)) (j # js)"
    and at: "attAt (Children (atts ! i)) (j # js) = Some a"
    by (auto split: if_splits)
  from "3.IH" [OF v at "3.prems"(3), of "gsn (Name (atts ! i)) @ ''.''"]
  obtain a' where "attAt (fst (validateAttributes gsn ivs gaf (Children (atts ! i))
      (gsn (Name (atts ! i)) @ ''.''))) (j # js) = Some a'"
    and "Name a' = Name a" and "ShortName a' = gsn (Name a)"
    by blast
  then show ?case
    using reached_sibling(1) [OF i ok, of path] head_group(1) [where g = "atts ! i" and ivs = ivs and gsn = gsn and gaf = gaf
        and post = "drop (Suc i) atts" and path = path, OF g] i
    by (simp add: validateAttributes_length del: validateAttributes.simps)
qed

text \<open>
  Claim C5, as the code has it. Every attribute definition that the validation visits
  and that has a name is left with the short name derived from its name, whatever short
  name it came with and whether or not a check fails afterwards. After a validation that
  returns no error the slice is the input with every short name in every tree replaced
  by the derived one, so every attribute of every tree has the short name derived from
  its name.
\<close>

theorem short_names_recomputed:
  "(visited gsn ivs gaf atts pos \<and> attAt atts pos = Some a \<and> Name a \<noteq> [] \<longrightarrow>
      (\<exists>a'. attAt (fst (validateAttributes gsn ivs gaf atts path)) pos = Some a' \<and>
            Name a' = Name a \<and> ShortName a' = gsn (Name a))) \<and>
   (snd (validateAttributes gsn ivs gaf atts path) = None \<longrightarrow>
      fst (validateAttributes gsn ivs gaf atts path) = map (normalizeShortNames gsn) atts \<and>
      (\<forall>t \<in> set (fst (validateAttributes gsn ivs gaf atts path)).
         \<forall>b \<in> set (attributesOf t). ShortName b = gsn (Name b)))"
proof (intro conjI impI ballI)
  assume "visited gsn ivs gaf atts pos \<and> attAt atts pos = Some a \<and> Name a \<noteq> []"
  then show "\<exists>a'. attAt (fst (validateAttributes gsn ivs gaf atts path)) pos = Some a' \<and>
            Name a' = Name a \<and> ShortName a' = gsn (Name a)"
    using visited_overwritten [of gsn ivs gaf atts pos a path] by simp
next
  assume "snd (validateAttributes gsn ivs gaf atts path) = None"
  then show "fst (validateAttributes gsn ivs gaf atts path) = map (normalizeShortNames gsn) atts"
    by (rule success_result)
next
  fix t b
  assume ok: "snd (validateAttributes gsn ivs gaf atts path) = None"
    and t: "t \<in> set (fst (validateAttributes gsn ivs gaf atts path))"
    and b: "b \<in> set (attributesOf t)"
  from ok t obtain a where "t = normalizeShortNames gsn a"
    by (auto simp: success_result)
  with b show "ShortName b = gsn (Name b)"
    by (simp add: attributesOf_normalizeShortNames)
qed

text \<open>
  In the group \<open>Disks\<close> the second child comes with the short name \<open>zzz\<close> and fails for
  its missing type, yet is left with \<open>label\<close>; a group that validates is left with its
  own and its child's short name derived anew.
\<close>

theorem short_names_recomputed_witness:
  "visited (GetShortName ''-_'') (IsValidShortName ''-_'') GetAttributeFormat
     [attribute ''Host'' ''h'' ''string'' [],
      attribute ''Disks'' ''d'' ''group''
        [attribute ''Size GB'' ''s'' ''number'' [], attribute ''Label'' ''zzz'' [] []]] [1, 1] \<and>
   attAt [attribute ''Host'' ''h'' ''string'' [],
      attribute ''Disks'' ''d'' ''group''
        [attribute ''Size GB'' ''s'' ''number'' [], attribute ''Label'' ''zzz'' [] []]] [1, 1]
     = Some (attribute ''Label'' ''zzz'' [] []) \<and>
   attAt (fst (validateAttributes (GetShortName ''-_'') (IsValidShortName ''-_'') GetAttributeFormat
     [attribute ''Host'' ''h'' ''string'' [],
      attribute ''Disks'' ''d'' ''group''
        [attribute ''Size GB'' ''s'' ''number'' [], attribute ''Label'' ''zzz'' [] []]] [])) [1, 1]
     = Some (attribute ''Label'' ''label'' [] []) \<and>
   fst (validateAttributes (GetShortName ''-_'') (IsValidShortName ''-_'') GetAttributeFormat
       [attribute ''Disks'' ''d'' ''group'' [attribute ''Size GB'' ''s'' ''number'' []]] [])
     = [attribute ''Disks'' ''disks'' ''group'' [attribute ''Size GB'' ''sizegb'' ''number'' []]]"
proof -
  have failing: "visited (GetShortName ''-_'') (IsValidShortName ''-_'') GetAttributeFormat
     [attribute ''Host'' ''h'' ''string'' [],
      attribute ''Disks'' ''d'' ''group''
        [attribute ''Size GB'' ''s'' ''number'' [], attribute ''Label'' ''zzz'' [] []]] [1, 1] \<and>
   attAt [attribute ''Host'' ''h'' ''string'' [],
      attribute ''Disks'' ''d'' ''group''
        [attribute ''Size GB'' ''s'' ''number'' [], attribute ''Label'' ''zzz'' [] []]] [1, 1]
     = Some (attribute ''Label'' ''zzz'' [] []) \<and>
   attAt (fst (validateAttributes (GetShortName ''-_'') (IsValidShortName ''-_'') GetAttributeFormat
     [attribute ''Host'' ''h'' ''string'' [],
      attribute ''Disks'' ''d'' ''group''
        [attribute ''Size GB'' ''s'' ''number'' [], attribute ''Label'' ''zzz'' [] []]] [])) [1, 1]
     = Some (attribute ''Label'' ''label'' [] [])"
    using short_names_recomputed
          [where gsn = "GetShortName ''-_''" and ivs = "IsValidShortName ''-_''"
             and gaf = GetAttributeFormat and path = "[]" and pos = "[1, 1]"
             and a = "attribute ''Label'' ''zzz'' [] []"
             and atts = "[attribute ''Host'' ''h'' ''string'' [],
                attribute ''Disks'' ''d'' ''group''
                  [attribute ''Size GB'' ''s'' ''number'' [], attribute ''Label'' ''zzz'' [] []]]"]
    by (simp add: eval_defs)
  have passing: "fst (validateAttributes (GetShortName ''-_'') (IsValidShortName ''-_'')
       GetAttributeFormat
       [attribute ''Disks'' ''d'' ''group'' [attribute ''Size GB'' ''s'' ''number'' []]] [])
     = [attribute ''Disks'' ''disks'' ''group'' [attribute ''Size GB'' ''sizegb'' ''number'' []]]"
    using short_names_recomputed
          [where gsn = "GetShortName ''-_''" and ivs = "IsValidShortName ''-_''"
             and gaf = GetAttributeFormat and path = "[]" and pos = "[]"
             and a = "attribute ''Disks'' ''d'' ''group'' []"
             and atts = "[attribute ''Disks'' ''d'' ''group''
                  [attribute ''Size GB'' ''s'' ''number'' []]]"]
    by (simp add: eval_defs)
  from failing passing show ?thesis
    by (simp only: simp_thms)
qed

text \<open>
  Claim C5, as the spec words it, fails at a visited attribute without a name: the loop
  returns at the name check, before the assignment, and a short name that came with the
  attribute stays.
\<close>

theorem nameless_attribute_keeps_short_name:
  "visited (GetShortName ''-_'') (IsValidShortName ''-_'') GetAttributeFormat
     [attribute [] ''x'' ''string'' []] [0] \<and>
   attAt (fst (validateAttributes (GetShortName ''-_'') (IsValidShortName ''-_'')
      GetAttributeFormat [attribute [] ''x'' ''string'' []] [])) [0]
     = Some (attribute [] ''x'' ''string'' []) \<and>
   ShortName (attribute [] ''x'' ''string'' [])
     \<noteq> GetShortName ''-_'' (Name (attribute [] ''x'' ''string'' []))"
  by (simp add: eval_defs)

subsection \<open>Fail-fast validation\<close>

text \<open>
  Claim C6. Validation returns the first error it meets and nothing more. Within one
  attribute the checks come in the order: name not empty, derived short name valid, type
  not empty, type registered, then the children (a group's children are validated, any
  other attribute must have none); each failing check decides the result whatever the
  later fields and the later siblings hold, and the later siblings are left untouched.
  Siblings are visited in sequence order: an error in a front part of the sequence is
  the result for the whole sequence, and only a front part without error lets the rest
  decide. \<^const>\<open>Validate\<close> checks the schema's name, then its short name, then the
  attributes.
\<close>

theorem fail_fast_in_order:
  "(Name a = [] \<longrightarrow>
      validateAttributes gsn ivs gaf (a # rest) path =
        (a # rest, Some ''No attribute name specified'')) \<and>
   (Name a \<noteq> [] \<and> \<not> ivs (gsn (Name a)) \<longrightarrow>
      validateAttributes gsn ivs gaf (a # rest) path =
        (set_ShortName (gsn (Name a)) a # rest,
         Some (''Invalid characters in CI Attribute '' @ [CHR 39] @ path @ gsn (Name a) @ [CHR 39]))) \<and>
   (Name a \<noteq> [] \<and> ivs (gsn (Name a)) \<and> Type a = [] \<longrightarrow>
      validateAttributes gsn ivs gaf (a # rest) path =
        (set_ShortName (gsn (Name a)) a # rest,
         Some (''No type specified for CI Attribute '' @ [CHR 39] @ path @ gsn (Name a) @ [CHR 39]))) \<and>
   (Name a \<noteq> [] \<and> ivs (gsn (Name a)) \<and> Type a \<noteq> [] \<and> gaf (Type a) = None \<longrightarrow>
      validateAttributes gsn ivs gaf (a # rest) path =
        (set_ShortName (gsn (Name a)) a # rest,
         Some (''Unsupported attribute format '' @ [CHR 39] @ Type a @ [CHR 39]
               @ '' for CI Attribute '' @ [CHR 39] @ path @ gsn (Name a) @ [CHR 39]))) \<and>
   (Name a \<noteq> [] \<and> ivs (gsn (Name a)) \<and> Type a \<noteq> [] \<and> gaf (Type a) \<noteq> None \<and>
    Type a = ''group'' \<and>
    snd (validateAttributes gsn ivs gaf (Children a) (gsn (Name a) @ ''.'')) = Some e \<longrightarrow>
      snd (validateAttributes gsn ivs gaf (a # rest) path) = Some e \<and>
      tl (fst (validateAttributes gsn ivs gaf (a # rest) path)) = rest) \<and>
   (Name a \<noteq> [] \<and> ivs (gsn (Name a)) \<and> Type a \<noteq> [] \<and> gaf (Type a) \<noteq> None \<and>
    Type a \<noteq> ''group'' \<and> Children a \<noteq> [] \<longrightarrow>
      validateAttributes gsn ivs gaf (a # rest) path =
        (set_ShortName (gsn (Name a)) a # rest,
         Some (''CI Attribute '' @ [CHR 39] @ path @ gsn (Name a) @ [CHR 39]
               @ '' has children but is not a group attribute''))) \<and>
   (snd (validateAttributes gsn ivs gaf [a] path) = None \<longrightarrow>
      snd (validateAttributes gsn ivs gaf (a # rest) path) =
        snd (validateAttributes gsn ivs gaf rest path)) \<and>
   (snd (validateAttributes gsn ivs gaf xs path) = Some e \<longrightarrow>
      validateAttributes gsn ivs gaf (xs @ ys) path =
        (fst (validateAttributes gsn ivs gaf xs path) @ ys, Some e)) \<and>
   (snd (validateAttributes gsn ivs gaf xs path) = None \<longrightarrow>
      snd (validateAttributes gsn ivs gaf (xs @ ys) path) =
        snd (validateAttributes gsn ivs gaf ys path)) \<and>
   (ciName c = [] \<longrightarrow> Validate gsn ivs gaf c = (c, Some ''No CI Type name specified'')) \<and>
   (ciName c \<noteq> [] \<and> \<not> ivs (if ciShortName c = [] then gsn (ciName c) else ciShortName c) \<longrightarrow>
      snd (Validate gsn ivs gaf c) = Some ''Invalid characters in CI Type name'' \<and>
      ciAttributes (fst (Validate gsn ivs gaf c)) = ciAttributes c) \<and>
   (ciName c \<noteq> [] \<and> ivs (if ciShortName c = [] then gsn (ciName c) else ciShortName c) \<longrightarrow>
      snd (Validate gsn ivs gaf c) = snd (validateAttributes gsn ivs gaf (ciAttributes c) []))"
proof (intro conjI impI)
  assume "snd (validateAttributes gsn ivs gaf [a] path) = None"
  then show "snd (validateAttributes gsn ivs gaf (a # rest) path) =
        snd (validateAttributes gsn ivs gaf rest path)"
    using validateAttributes_append_ok [of gsn ivs gaf "[a]" path rest]
    by (simp del: validateAttributes.simps)
next
  assume "snd (validateAttributes gsn ivs gaf xs path) = Some e"
  then show "validateAttributes gsn ivs gaf (xs @ ys) path =
        (fst (validateAttributes gsn ivs gaf xs path) @ ys, Some e)"
    by (rule validateAttributes_append_error)
next
  assume "snd (validateAttributes gsn ivs gaf xs path) = None"
  then show "snd (validateAttributes gsn ivs gaf (xs @ ys) path) =
        snd (validateAttributes gsn ivs gaf ys path)"
    by (simp add: validateAttributes_append_ok)
qed (auto simp: Validate_def Let_def split: prod.splits option.splits)

text \<open>
  A nameless attribute before one of unknown format; an attribute of unknown format that
  also has children, before a nameless one; a sequence whose second attribute has no
  type, before one of unknown format; a schema without a name whose attribute has none
  either.
\<close>

theorem fail_fast_in_order_witness:
  "validateAttributes (GetShortName ''-_'') (IsValidShortName ''-_'') GetAttributeFormat
     (attribute [] [] [] [] # [attribute ''Disk'' [] ''bogus'' []]) [] =
     (attribute [] [] [] [] # [attribute ''Disk'' [] ''bogus'' []],
      Some ''No attribute name specified'') \<and>
   validateAttributes (GetShortName ''-_'') (IsValidShortName ''-_'') GetAttributeFormat
     (attribute ''Disk'' [] ''bogus'' [attribute [] [] [] []] # [attribute [] [] [] []]) ''host.'' =
     (attribute ''Disk'' ''disk'' ''bogus'' [attribute [] [] [] []] # [attribute [] [] [] []],
      Some (''Unsupported attribute format '' @ [CHR 39] @ ''bogus'' @ [CHR 39]
            @ '' for CI Attribute '' @ [CHR 39] @ ''host.disk'' @ [CHR 39])) \<and>
   validateAttributes (GetShortName ''-_'') (IsValidShortName ''-_'') GetAttributeFormat
     ([attribute ''Host'' [] ''string'' [], attribute ''Disk'' [] [] []]
        @ [attribute ''CPU'' [] ''bogus'' []]) [] =
     ([attribute ''Host'' ''host'' ''string'' [], attribute ''Disk'' ''disk'' [] []]
        @ [attribute ''CPU'' [] ''bogus'' []],
      Some (''No type specified for CI Attribute '' @ [CHR 39] @ ''disk'' @ [CHR 39])) \<and>
   Validate (GetShortName ''-_'') (IsValidShortName ''-_'') GetAttributeFormat
     (citype [] ''?'' [attribute [] [] [] []]) =
     (citype [] ''?'' [attribute [] [] [] []], Some ''No CI Type name specified'')"
  using
    fail_fast_in_order [where gsn = "GetShortName ''-_''" and ivs = "IsValidShortName ''-_''"
      and gaf = GetAttributeFormat and a = "attribute [] [] [] []"
      and rest = "[attribute ''Disk'' [] ''bogus'' []]" and path = "[]"
      and xs = "[]" and ys = "[]" and e = "[]" and c = "citype [] [] []"]
    fail_fast_in_order [where gsn = "GetShortName ''-_''" and ivs = "IsValidShortName ''-_''"
      and gaf = GetAttributeFormat and a = "attribute ''Disk'' [] ''bogus'' [attribute [] [] [] []]"
      and rest = "[attribute [] [] [] []]" and path = "''host.''"
      and xs = "[]" and ys = "[]" and e = "[]" and c = "citype [] [] []"]
    fail_fast_in_order [where gsn = "GetShortName ''-_''" and ivs = "IsValidShortName ''-_''"
      and gaf = GetAttributeFormat and path = "[]"
      and xs = "[attribute ''Host'' [] ''string'' [], attribute ''Disk'' [] [] []]"
      and ys = "[attribute ''CPU'' [] ''bogus'' []]"
      and e = "''No type specified for CI Attribute '' @ [CHR 39] @ ''disk'' @ [CHR 39]"
      and c = "citype [] ''?'' [attribute [] [] [] []]"
      and a = "attribute [] [] [] []" and rest = "[]"]
  by (simp add: eval_defs)

subsection \<open>Unknown formats\<close>

lemma visited_unsupported:
  "visited gsn ivs gaf atts pos \<Longrightarrow> attAt atts pos = Some a \<Longrightarrow>
   Name a \<noteq> [] \<Longrightarrow> ivs (gsn (Name a)) \<Longrightarrow> Type a \<noteq> [] \<Longrightarrow> gaf (Type a) = None \<Longrightarrow>
   \<exists>p. snd (validateAttributes gsn ivs gaf atts path) =
          Some (''Unsupported attribute format '' @ [CHR 39] @ Type a @ [CHR 39]
                @ '' for CI Attribute '' @ [CHR 39] @ p @ gsn (Name a) @ [CHR 39]) \<and>
       (length pos = 1 \<longrightarrow> p = path)"
proof (induction gsn ivs gaf atts pos arbitrary: path rule: visited.induct)
  case (1 gsn ivs gaf atts)
  then show ?case by simp
next
  case (2 gsn ivs gaf atts i)
  then have i: "i < length atts" and ok: "snd (validateAttributes gsn ivs gaf (take i atts) []) = None"
    and a: "atts ! i = a"
    by (auto split: if_splits)
  have "snd (validateAttributes gsn ivs gaf (a # drop (Suc i) atts) path) =
          Some (''Unsupported attribute format '' @ [CHR 39] @ Type a @ [CHR 39]
                @ '' for CI Attribute '' @ [CHR 39] @ path @ gsn (Name a) @ [CHR 39])"
    using "2.prems" by (simp add: Let_def)
  then show ?case
    using reached_sibling(2) [OF i ok, of path] a by (simp del: validateAttributes.simps)
next
  case (3 gsn ivs gaf atts i j js)
  then have i: "i < length atts" and ok: "snd (validateAttributes gsn ivs gaf (take i atts) []) = None"
    and g: "Name (atts ! i) \<noteq> []" "ivs (gsn (Name (atts ! i)))" "Type (atts ! i) = ''group''"
           "gaf (Type (atts ! i)) \<noteq> None"
    and v: "visited gsn ivs gaf (Children (atts ! i)) (j # js)"
    and at: "attAt (Children (atts ! i)) (j # js) = Some a"
    by (auto split: if_splits)
  from "3.IH" [OF v at "3.prems"(3-6), of "gsn (Name (atts ! i)) @ ''.''"]
  obtain p where "snd (validateAttributes gsn ivs gaf (Children (atts ! i))
      (gsn (Name (atts ! i)) @ ''.'')) =
          Some (''Unsupported attribute format '' @ [CHR 39] @ Type a @ [CHR 39]
                @ '' for CI Attribute '' @ [CHR 39] @ p @ gsn (Name a) @ [CHR 39])"
    by blast
  then have "snd (validateAttributes gsn ivs gaf atts path) =
          Some (''Unsupported attribute format '' @ [CHR 39] @ Type a @ [CHR 39]
                @ '' for CI Attribute '' @ [CHR 39] @ p @ gsn (Name a) @ [CHR 39])"
    using reached_sibling(2) [OF i ok, of path] head_group(2) [where g = "atts ! i" and ivs = ivs and gsn = gsn and gaf = gaf
        and post = "drop (Suc i) atts" and path = path, OF g]
    by (simp del: validateAttributes.simps)
  then show ?case by auto
qed

text \<open>
  Claim C7, as the code has it. When the validation of a sequence visits an attribute
  that has a name, a valid derived short name and a type that is not empty and does not
  resolve in the registry, it fails with the error
  \<open>Unsupported attribute format '<type>' for CI Attribute '<prefix><short name>'\<close>:
  the error names the type and, behind a path prefix, the short name; for a sibling of
  the sequence itself the prefix is the one the call was given. So does
  \<^const>\<open>Validate\<close> for a schema whose own name and short name pass, with the empty
  prefix for a root attribute.
\<close>

theorem unsupported_format_reported:
  "(visited gsn ivs gaf atts pos \<and> attAt atts pos = Some a \<and>
    Name a \<noteq> [] \<and> ivs (gsn (Name a)) \<and> Type a \<noteq> [] \<and> gaf (Type a) = None \<longrightarrow>
      (\<exists>p. snd (validateAttributes gsn ivs gaf atts path) =
             Some (''Unsupported attribute format '' @ [CHR 39] @ Type a @ [CHR 39]
                   @ '' for CI Attribute '' @ [CHR 39] @ p @ gsn (Name a) @ [CHR 39]) \<and>
           (length pos = 1 \<longrightarrow> p = path))) \<and>
   (ciName c \<noteq> [] \<and> ivs (if ciShortName c = [] then gsn (ciName c) else ciShortName c) \<and>
    visited gsn ivs gaf (ciAttributes c) pos \<and> attAt (ciAttributes c) pos = Some a \<and>
    Name a \<noteq> [] \<and> ivs (gsn (Name a)) \<and> Type a \<noteq> [] \<and> gaf (Type a) = None \<longrightarrow>
      (\<exists>p. snd (Validate gsn ivs gaf c) =
             Some (''Unsupported attribute format '' @ [CHR 39] @ Type a @ [CHR 39]
                   @ '' for CI Attribute '' @ [CHR 39] @ p @ gsn (Name a) @ [CHR 39]) \<and>
           (length pos = 1 \<longrightarrow> p = [])))"
proof (intro conjI impI)
  assume "visited gsn ivs gaf atts pos \<and> attAt atts pos = Some a \<and>
    Name a \<noteq> [] \<and> ivs (gsn (Name a)) \<and> Type a \<noteq> [] \<and> gaf (Type a) = None"
  then show "\<exists>p. snd (validateAttributes gsn ivs gaf atts path) =
             Some (''Unsupported attribute format '' @ [CHR 39] @ Type a @ [CHR 39]
                   @ '' for CI Attribute '' @ [CHR 39] @ p @ gsn (Name a) @ [CHR 39]) \<and>
           (length pos = 1 \<longrightarrow> p = path)"
    using visited_unsupported [of gsn ivs gaf atts pos a path] by simp
next
  assume h: "ciName c \<noteq> [] \<and> ivs (if ciShortName c = [] then gsn (ciName c) else ciShortName c) \<and>
    visited gsn ivs gaf (ciAttributes c) pos \<and> attAt (ciAttributes c) pos = Some a \<and>
    Name a \<noteq> [] \<and> ivs (gsn (Name a)) \<and> Type a \<noteq> [] \<and> gaf (Type a) = None"
  then have "snd (Validate gsn ivs gaf c) =
        snd (validateAttributes gsn ivs gaf (ciAttributes c) [])"
    by (auto simp: Validate_def Let_def split: prod.splits option.splits)
  with h show "\<exists>p. snd (Validate gsn ivs gaf c) =
             Some (''Unsupported attribute format '' @ [CHR 39] @ Type a @ [CHR 39]
                   @ '' for CI Attribute '' @ [CHR 39] @ p @ gsn (Name a) @ [CHR 39]) \<and>
           (length pos = 1 \<longrightarrow> p = [])"
    using visited_unsupported [of gsn ivs gaf "ciAttributes c" pos a "[]"] by simp
qed

text \<open>
  The attribute \<open>Disk\<close> of format \<open>bogus\<close> after a good sibling, and the same attribute
  as the child of a root group.
\<close>

theorem unsupported_format_reported_witness:
  "visited (GetShortName ''-_'') (IsValidShortName ''-_'') GetAttributeFormat
     [attribute ''Host'' [] ''string'' [], attribute ''Disk'' [] ''bogus'' []] [1] \<and>
   snd (validateAttributes (GetShortName ''-_'') (IsValidShortName ''-_'') GetAttributeFormat
      [attribute ''Host'' [] ''string'' [], attribute ''Disk'' [] ''bogus'' []] ''rack.'') =
     Some (''Unsupported attribute format '' @ [CHR 39] @ ''bogus'' @ [CHR 39]
           @ '' for CI Attribute '' @ [CHR 39] @ ''rack.disk'' @ [CHR 39]) \<and>
   visited (GetShortName ''-_'') (IsValidShortName ''-_'') GetAttributeFormat
     [attribute ''Host'' [] ''group'' [attribute ''Disk'' [] ''bogus'' []]] [0, 0] \<and>
   snd (Validate (GetShortName ''-_'') (IsValidShortName ''-_'') GetAttributeFormat
      (citype ''Server'' [] [attribute ''Host'' [] ''group'' [attribute ''Disk'' [] ''bogus'' []]])) =
     Some (''Unsupported attribute format '' @ [CHR 39] @ ''bogus'' @ [CHR 39]
           @ '' for CI Attribute '' @ [CHR 39] @ ''host.disk'' @ [CHR 39])"
  using
    unsupported_format_reported [where gsn = "GetShortName ''-_''" and ivs = "IsValidShortName ''-_''"
      and gaf = GetAttributeFormat and pos = "[1]" and path = "''rack.''"
      and atts = "[attribute ''Host'' [] ''string'' [], attribute ''Disk'' [] ''bogus'' []]"
      and a = "attribute ''Disk'' [] ''bogus'' []" and c = "citype [] [] []"]
    unsupported_format_reported [where gsn = "GetShortName ''-_''" and ivs = "IsValidShortName ''-_''"
      and gaf = GetAttributeFormat and pos = "[0, 0]" and atts = "[]" and path = "[]"
      and c = "citype ''Server'' [] [attribute ''Host'' [] ''group'' [attribute ''Disk'' [] ''bogus'' []]]"
      and a = "attribute ''Disk'' [] ''bogus'' []"]
  by (simp add: eval_defs)

text \<open>
  Claim C7, as the spec words it, fails for a schema that holds an attribute of unknown
  format behind an attribute that fails an earlier check: the earlier error is returned.
\<close>

theorem unsupported_format_behind_earlier_error:
  "Type (attribute ''Disk'' [] ''bogus'' []) \<noteq> [] \<and>
   GetAttributeFormat (Type (attribute ''Disk'' [] ''bogus'' [])) = None \<and>
   snd (Validate (GetShortName ''-_'') (IsValidShortName ''-_'') GetAttributeFormat
          (citype ''Server'' [] [attribute [] [] ''string'' [], attribute ''Disk'' [] ''bogus'' []]))
     = Some ''No attribute name specified''"
  by (simp add: eval_defs)

subsection \<open>The schema's short name\<close>






subsection \<open>Lookup by short name\<close>

lemma toLowerByte_idem: "toLowerByte (toLowerByte c) = toLowerByte c"
  by (simp add: toLowerByte_def)











subsection \<open>Short name derivation\<close>

lemma map_filter_fixed: "(\<forall>y \<in> set ys. f y = y) \<Longrightarrow> map f (filter P ys) = filter P ys"
  by (induction ys) auto

lemma GetShortName_idem: "GetShortName seps (GetShortName seps x) = GetShortName seps x"
  by (simp add: GetShortName_def map_filter_fixed toLowerByte_idem)

text \<open>
  Claim C8. For a name made of ASCII letters and digits only, deriving the short name of
  the derived short name gives the derived short name again. (The model of the derivation
  is a function of its arguments alone; the equation holds for every name.)
\<close>

theorem GetShortName_idempotent:
  "list_all (\<lambda>c. isLetter c \<or> isDigit c) x \<Longrightarrow>
   GetShortName seps (GetShortName seps x) = GetShortName seps x"
  by (rule GetShortName_idem)

theorem GetShortName_idempotent_witness:
  "list_all (\<lambda>c. isLetter c \<or> isDigit c) ''Server01'' \<and>
   GetShortName ''-_'' ''Server01'' = ''server01'' \<and>
   GetShortName ''-_'' (GetShortName ''-_'' ''Server01'') = GetShortName ''-_'' ''Server01''"
  using GetShortName_idempotent [of "''Server01''" "''-_''"]
  by (simp add: eval_defs)

subsection \<open>Numbers as booleans\<close>








subsection \<open>Password hashes are accepted\<close>

lemma length_slice32: "length (slice32 d) = 32"
  by (simp add: slice32_def)

lemma indexOf_nth: "distinct xs \<Longrightarrow> i < length xs \<Longrightarrow> indexOf (xs ! i) xs = Some i"
proof (induction xs arbitrary: i)
  case Nil
  then show ?case by simp
next
  case (Cons x xs)
  then show ?case by (cases i) auto
qed

lemma distinct_encodeStd: "distinct encodeStd"
  by (simp add: encodeStd_def)

lemma length_encodeStd: "length encodeStd = 64"
  by (simp add: encodeStd_def)

lemma sextet_less: "sextet v d < 64"
  by (simp add: sextet_def)

lemma decodeMap_encode: "decodeMap (encode (sextet v d)) = Some (sextet v d)"
  by (simp add: decodeMap_def encode_def indexOf_nth distinct_encodeStd length_encodeStd sextet_less)

lemma encode_not_special:
  "encode (sextet v d) \<noteq> CHR ''=''" "encode (sextet v d) \<noteq> CHR 13" "encode (sextet v d) \<noteq> CHR 10"
proof -
  have "encode (sextet v d) \<in> set encodeStd"
    by (simp add: encode_def length_encodeStd sextet_less)
  then show "encode (sextet v d) \<noteq> CHR ''=''" "encode (sextet v d) \<noteq> CHR 13"
    "encode (sextet v d) \<noteq> CHR 10"
    by (auto simp: encodeStd_def)
qed

lemma digits:
  assumes v: "(v::nat) < 16777216"
  shows "sextets (sextet v 18) (sextet v 12) (sextet v 6) (sextet v 0) = v"
proof -
  define a b c d where "a = v div 64 div 64 div 64" and "b = v div 64 div 64 mod 64"
    and "c = v div 64 mod 64" and "d = v mod 64"
  have e2: "v div 64 div 64 = v div 4096"
    using div_mult2_eq [of v 64 64] by simp
  have e3: "v div 64 div 64 div 64 = v div 262144"
    using div_mult2_eq [of v 4096 64] e2 by simp
  have "v div 262144 < 64"
    using v by simp
  then have d3: "sextet v 18 = a"
    by (simp add: a_def e3 sextet_def)
  have d2: "sextet v 12 = b"
    by (simp add: b_def e2 sextet_def)
  have d1: "sextet v 6 = c" and d0: "sextet v 0 = d"
    by (simp_all add: c_def d_def sextet_def)
  have "((a * 64 + b) * 64 + c) * 64 + d = v"
    unfolding a_def b_def c_def d_def by (simp only: div_mult_mod_eq)
  moreover have "((a * 64 + b) * 64 + c) * 64 + d = a * 262144 + b * 4096 + c * 64 + d"
    by (simp add: algebra_simps)
  ultimately have "a * 262144 + b * 4096 + c * 64 + d = v"
    by (simp only:)
  then show ?thesis
    by (simp only: d3 d2 d1 d0 sextets_def)
qed

lemma quantum_split:
  assumes "a < 256" "b < 256" "c < 256"
  shows "quantum a b c < 16777216"
    and "quantum a b c div 65536 = a"
    and "quantum a b c div 256 mod 256 = b"
    and "quantum a b c mod 256 = c"
proof -
  have e: "quantum a b c = (a * 256 + b) * 256 + c"
    by (simp add: quantum_def)
  show "quantum a b c < 16777216"
    using assms unfolding quantum_def by linarith
  have q: "quantum a b c div 256 = a * 256 + b"
    unfolding e using assms(3) by simp
  then show "quantum a b c div 256 mod 256 = b"
    using assms(2) by simp
  have "quantum a b c mod 256 = c mod 256"
    unfolding e by (rule mod_mult_self3)
  then show "quantum a b c mod 256 = c"
    using assms(3) by simp
  have "quantum a b c div 65536 = quantum a b c div 256 div 256"
    using div_mult2_eq [of "quantum a b c" 256 256] by simp
  also have "\<dots> = a"
    unfolding q using assms(2) by simp
  finally show "quantum a b c div 65536 = a" .
qed

lemma low_sextets:
  "sextet (quantum a b 0) 0 = 0"
  "sextet (quantum a 0 0) 6 = 0"
proof -
  have "quantum a b 0 = (a * 1024 + b * 4) * 64"
    by (simp add: quantum_def)
  then have "quantum a b 0 mod 64 = 0"
    by (simp only: mod_mult_self2_is_0)
  then show "sextet (quantum a b 0) 0 = 0"
    by (simp add: sextet_def)
  have "quantum a 0 0 div 64 = a * 16 * 64"
    by (simp add: quantum_def)
  then have "quantum a 0 0 div 64 mod 64 = 0"
    by (simp only: mod_mult_self2_is_0)
  then show "sextet (quantum a 0 0) 6 = 0"
    by (simp add: sextet_def)
qed

lemma of_nat_byte: "n mod 256 = unat w \<Longrightarrow> (of_nat n :: byte) = w"
  by (simp add: word_unat_eq_iff unat_of_nat)

lemma unat_byte: "unat (w :: byte) < 256"
  using unsigned_less [of w, where ?'a = nat] by simp

lemma octets_of_quantum:
  fixes a b c :: byte
  shows "octet (quantum (unat a) (unat b) (unat c)) 16 = a"
    and "octet (quantum (unat a) (unat b) (unat c)) 8 = b"
    and "octet (quantum (unat a) (unat b) (unat c)) 0 = c"
proof -
  note s = quantum_split [OF unat_byte [of a] unat_byte [of b] unat_byte [of c]]
  show "octet (quantum (unat a) (unat b) (unat c)) 16 = a"
    by (simp add: octet_def s(2))
  show "octet (quantum (unat a) (unat b) (unat c)) 8 = b"
    unfolding octet_def by (rule of_nat_byte) (simp add: s(3))
  show "octet (quantum (unat a) (unat b) (unat c)) 0 = c"
    unfolding octet_def by (rule of_nat_byte) (simp add: s(4))
qed

lemma quantum3:
  fixes a b c :: byte
  shows "sextets (sextet (quantum (unat a) (unat b) (unat c)) 18)
           (sextet (quantum (unat a) (unat b) (unat c)) 12)
           (sextet (quantum (unat a) (unat b) (unat c)) 6)
           (sextet (quantum (unat a) (unat b) (unat c)) 0) = quantum (unat a) (unat b) (unat c)"
  by (rule digits) (rule quantum_split [OF unat_byte unat_byte unat_byte])

lemma quantum2:
  fixes a b :: byte
  shows "sextets (sextet (quantum (unat a) (unat b) 0) 18)
           (sextet (quantum (unat a) (unat b) 0) 12)
           (sextet (quantum (unat a) (unat b) 0) 6) 0 = quantum (unat a) (unat b) 0"
  using quantum3 [of a b 0] by (simp add: low_sextets)

lemma quantum1:
  fixes a :: byte
  shows "sextets (sextet (quantum (unat a) 0 0) 18)
           (sextet (quantum (unat a) 0 0) 12) 0 0 = quantum (unat a) 0 0"
  using quantum3 [of a 0 0] by (simp add: low_sextets)

lemma octets_of_quantum2:
  fixes a b :: byte
  shows "octet (quantum (unat a) (unat b) 0) 16 = a"
    and "octet (quantum (unat a) (unat b) 0) 8 = b"
  using octets_of_quantum(1,2) [of a b 0] by simp_all

lemma octets_of_quantum1:
  fixes a :: byte
  shows "octet (quantum (unat a) 0 0) 16 = a"
  using octets_of_quantum(1) [of a 0 0] by simp

lemma EncodeToString_no_newline:
  "filter (\<lambda>c. c \<noteq> CHR 13 \<and> c \<noteq> CHR 10) (EncodeToString bs) = EncodeToString bs"
  by (induction bs rule: EncodeToString.induct)
     (simp_all add: Let_def encode_not_special)

lemma decodeQuanta_EncodeToString: "decodeQuanta (EncodeToString bs) = Some bs"
proof (induction bs rule: EncodeToString.induct)
  case 1
  show ?case by simp
next
  case (2 a)
  show ?case
    by (simp add: Let_def decodeMap_encode quantum1 octets_of_quantum1)
next
  case (3 a b)
  show ?case
    by (simp add: Let_def decodeMap_encode encode_not_special quantum2 octets_of_quantum2)
next
  case (4 a b c rest)
  then show ?case
    by (simp add: Let_def decodeMap_encode encode_not_special quantum3 octets_of_quantum)
qed

lemma DecodeString_EncodeToString: "DecodeString (EncodeToString bs) = Some bs"
  by (simp add: DecodeString_def EncodeToString_no_newline decodeQuanta_EncodeToString)

lemma EncodeToString_Nil_iff: "EncodeToString bs = [] \<longleftrightarrow> bs = []"
  by (cases bs rule: EncodeToString.cases) (simp_all add: Let_def)


text \<open>
  Claim C10. For a password that is not empty and a salt of 32 bytes, the hash decodes to
  the digest followed by the salt, so the bytes from the 32nd on are the salt, and
  \<^const>\<open>CheckPassword\<close> of the hash and the password returns true. When the password or
  the hash is the empty string, \<^const>\<open>CheckPassword\<close> returns false.
\<close>

theorem check_password_accepts_own_hash:
  "(p \<noteq> [] \<and> length s = 32 \<longrightarrow>
      map_option (drop 32) (DecodeString (HashPasswordWithSalt Sum256 p s)) = Some s \<and>
      CheckPassword Sum256 (HashPasswordWithSalt Sum256 p s) p = Inr True) \<and>
   (p = [] \<or> h = [] \<longrightarrow> CheckPassword Sum256 h p = Inr False)"
proof (intro conjI impI)
  define b where "b = slice32 (Sum256 (s @ bytes p)) @ s"
  have h: "HashPasswordWithSalt Sum256 p s = EncodeToString b"
    by (simp add: HashPasswordWithSalt_def b_def)
  have d: "drop 32 b = s"
    by (simp add: b_def length_slice32)
  show "map_option (drop 32) (DecodeString (HashPasswordWithSalt Sum256 p s)) = Some s"
    by (simp add: h d DecodeString_EncodeToString)
  assume a: "p \<noteq> [] \<and> length s = 32"
  have "length b = 64"
    using a by (simp add: b_def length_slice32)
  then have "b \<noteq> []" and "\<not> length b < 32"
    by auto
  then show "CheckPassword Sum256 (HashPasswordWithSalt Sum256 p s) p = Inr True"
    using a h d by (simp add: CheckPassword_def DecodeString_EncodeToString EncodeToString_Nil_iff)
next
  assume "p = [] \<or> h = []"
  then show "CheckPassword Sum256 h p = Inr False"
    by (auto simp: CheckPassword_def)
qed

text \<open>The password \<open>secret\<close> with the salt of 32 bytes \<open>7\<close>, under a constant digest.\<close>

theorem check_password_accepts_own_hash_witness:
  "''secret'' \<noteq> [] \<and> length (replicate 32 (7 :: byte)) = 32 \<and>
   map_option (drop 32) (DecodeString (HashPasswordWithSalt (\<lambda>m. 0) ''secret'' (replicate 32 7)))
     = Some (replicate 32 7) \<and>
   CheckPassword (\<lambda>m. 0) (HashPasswordWithSalt (\<lambda>m. 0) ''secret'' (replicate 32 7)) ''secret''
     = Inr True \<and>
   CheckPassword (\<lambda>m. 0) ''c2VjcmV0'' [] = Inr False"
  using check_password_accepts_own_hash [of "''secret''" "replicate 32 7" "\<lambda>m. 0" "''c2VjcmV0''"]
    check_password_accepts_own_hash [of "[]" "replicate 32 7" "\<lambda>m. 0" "''c2VjcmV0''"]
  by simp

end
